theory Spec2Isabelle
  imports Complex_Main
begin

section \<open>The brick game of frontend/index.html\<close>

text \<open>
  The script of \<^verbatim>\<open>frontend/index.html\<close> keeps its whole state in the global objects
  \<^verbatim>\<open>gameState\<close>, \<^verbatim>\<open>ball\<close>, \<^verbatim>\<open>paddle\<close> and \<^verbatim>\<open>bricks\<close> and mutates them from
  \<^verbatim>\<open>gameLoop\<close> and from the event handlers. Here every function of the script takes the
  state and returns the new one.

  Numbers. A JavaScript number is an IEEE double. The ball's coordinates and velocity are
  only ever produced by addition, negation, \<^verbatim>\<open>Math.abs\<close> and a division by the constant
  \<^verbatim>\<open>paddle.width / 2\<close>, so they are finite and are modelled as exact reals (rounding is
  not represented). The paddle's \<^verbatim>\<open>x\<close> is computed in \<^verbatim>\<open>aiControl\<close> with a division by
  \<^verbatim>\<open>ball.dy\<close>, which the script does not guard; it is therefore a \<open>jsnum\<close>, a real or
  one of the three special values of a double. The sign of a zero is not represented:
  a zero divisor is taken as \<^verbatim>\<open>+0\<close>.
\<close>

subsection \<open>Numbers with the special values of a double\<close>

datatype jsnum = Fin real | PosInf | NegInf | NaN

fun js_neg :: "jsnum \<Rightarrow> jsnum" where
  "js_neg (Fin a) = Fin (- a)"
| "js_neg PosInf = NegInf"
| "js_neg NegInf = PosInf"
| "js_neg NaN = NaN"

fun js_add :: "jsnum \<Rightarrow> jsnum \<Rightarrow> jsnum" where
  "js_add (Fin a) (Fin b) = Fin (a + b)"
| "js_add NaN _ = NaN"
| "js_add _ NaN = NaN"
| "js_add PosInf NegInf = NaN"
| "js_add NegInf PosInf = NaN"
| "js_add PosInf _ = PosInf"
| "js_add _ PosInf = PosInf"
| "js_add NegInf _ = NegInf"
| "js_add _ NegInf = NegInf"

definition js_sub :: "jsnum \<Rightarrow> jsnum \<Rightarrow> jsnum" where
  "js_sub a b = js_add a (js_neg b)"

text \<open>The sign of a number that is not \<open>NaN\<close>: \<open>-1\<close>, \<open>0\<close> or \<open>1\<close>.\<close>

fun js_sign :: "jsnum \<Rightarrow> real" where
  "js_sign (Fin a) = sgn a"
| "js_sign PosInf = 1"
| "js_sign NegInf = - 1"
| "js_sign NaN = 0"

fun js_mul :: "jsnum \<Rightarrow> jsnum \<Rightarrow> jsnum" where
  "js_mul (Fin a) (Fin b) = Fin (a * b)"
| "js_mul NaN _ = NaN"
| "js_mul _ NaN = NaN"
| "js_mul a b =
     (if js_sign a * js_sign b = 0 then NaN
      else if 0 < js_sign a * js_sign b then PosInf else NegInf)"

fun js_div :: "jsnum \<Rightarrow> jsnum \<Rightarrow> jsnum" where
  "js_div (Fin a) (Fin b) =
     (if b \<noteq> 0 then Fin (a / b)
      else if a = 0 then NaN
      else if 0 < a then PosInf else NegInf)"
| "js_div NaN _ = NaN"
| "js_div _ NaN = NaN"
| "js_div (Fin a) _ = Fin 0"
| "js_div PosInf (Fin b) = (if 0 \<le> b then PosInf else NegInf)"
| "js_div NegInf (Fin b) = (if 0 \<le> b then NegInf else PosInf)"
| "js_div _ _ = NaN"

fun js_lt :: "jsnum \<Rightarrow> jsnum \<Rightarrow> bool" where
  "js_lt (Fin a) (Fin b) = (a < b)"
| "js_lt NaN _ = False"
| "js_lt _ NaN = False"
| "js_lt _ NegInf = False"
| "js_lt PosInf _ = False"
| "js_lt _ _ = True"

definition js_gt :: "jsnum \<Rightarrow> jsnum \<Rightarrow> bool" where
  "js_gt a b = js_lt b a"

text \<open>\<^verbatim>\<open>Math.min\<close> and \<^verbatim>\<open>Math.max\<close>: \<open>NaN\<close> as soon as one argument is.\<close>

definition js_min :: "jsnum \<Rightarrow> jsnum \<Rightarrow> jsnum" where
  "js_min a b = (if a = NaN \<or> b = NaN then NaN else if js_lt b a then b else a)"

definition js_max :: "jsnum \<Rightarrow> jsnum \<Rightarrow> jsnum" where
  "js_max a b = (if a = NaN \<or> b = NaN then NaN else if js_lt a b then b else a)"

subsection \<open>Constants of the script\<close>

text \<open>
  Fields that the script never assigns after their initialisation: the canvas size
  (line 33), \<^verbatim>\<open>ball.radius\<close>, the paddle's size, \<^verbatim>\<open>y\<close> and speed (lines 75-82) and
  \<^verbatim>\<open>brickConfig\<close> (lines 85-93).
\<close>

abbreviation (input) canvas_width :: real where "canvas_width \<equiv> 480"
abbreviation (input) canvas_height :: real where "canvas_height \<equiv> 320"
abbreviation (input) ball_radius :: real where "ball_radius \<equiv> 8"
abbreviation (input) paddle_width :: real where "paddle_width \<equiv> 80"
abbreviation (input) paddle_height :: real where "paddle_height \<equiv> 12"
abbreviation (input) paddle_y :: real where "paddle_y \<equiv> canvas_height - 20"
abbreviation (input) paddle_speed :: real where "paddle_speed \<equiv> 8"

abbreviation (input) rowCount :: nat where "rowCount \<equiv> 3"
abbreviation (input) columnCount :: nat where "columnCount \<equiv> 7"
abbreviation (input) brick_width :: real where "brick_width \<equiv> 60"
abbreviation (input) brick_height :: real where "brick_height \<equiv> 20"
abbreviation (input) padding :: real where "padding \<equiv> 10"
abbreviation (input) offsetTop :: real where "offsetTop \<equiv> 40"
abbreviation (input) offsetLeft :: real where "offsetLeft \<equiv> 30"

definition colors :: "string list" where
  "colors = [''#FF9800'', ''#4CAF50'', ''#2196F3'']"

text \<open>The brick types: 1 normal, 2 reinforced, 3 special.\<close>

definition types :: "nat list" where
  "types = [1, 2, 3]"

subsection \<open>State\<close>

record brick =
  brick_x :: real
  brick_y :: real
  brick_status :: nat
  brick_type :: nat
  brick_color :: string

datatype wave = Square | Sine | Triangle

text \<open>A call \<^verbatim>\<open>playSound(frequency, type, duration)\<close>.\<close>

type_synonym sound = "nat \<times> wave \<times> real"

text \<open>What \<^verbatim>\<open>draw\<close> puts on the canvas and in the two counters of the page.\<close>

record frame =
  frame_ball :: "real \<times> real"
  frame_paddle :: jsnum
  frame_bricks :: "(real \<times> real \<times> string) list"
  frame_score :: int
  frame_lives :: int

text \<open>
  \<open>bricks\<close> is indexed by column, then row, as \<^verbatim>\<open>bricks[c][r]\<close>. \<open>rng\<close> counts the
  calls of \<^verbatim>\<open>Math.random\<close> so far, \<open>sounds\<close> lists the calls of \<^verbatim>\<open>playSound\<close> so far,
  \<open>screen\<close> is the last frame drawn.
\<close>

record game =
  score :: int
  lives :: int
  level :: int
  isAI :: bool
  gameOver :: bool
  paused :: bool
  ball_x :: real
  ball_y :: real
  ball_dx :: real
  ball_dy :: real
  paddle_x :: jsnum
  bricks :: "brick list list"
  rng :: nat
  sounds :: "sound list"
  screen :: "frame option"

subsection \<open>Creating the bricks (lines 96-117 and 306-325)\<close>

definition newBrick :: "nat \<Rightarrow> nat \<Rightarrow> brick" where
  "newBrick c r =
     \<lparr>brick_x = real c * (brick_width + padding) + offsetLeft,
      brick_y = real r * (brick_height + padding) + offsetTop,
      brick_status = 1,
      brick_type = types ! r,
      brick_color = colors ! r\<rparr>"

text \<open>The grid that the loop of lines 96-117 builds, column by column.\<close>

definition createBricks :: "brick list list" where
  "createBricks = map (\<lambda>c. map (\<lambda>r. newBrick c r) [0..<rowCount]) [0..<columnCount]"

text \<open>The assignment \<^verbatim>\<open>bricks[c][r] = b\<close> on a grid that has the cell.\<close>

definition setBrick :: "nat \<Rightarrow> nat \<Rightarrow> brick \<Rightarrow> brick list list \<Rightarrow> brick list list" where
  "setBrick c r b g = g[c := (g ! c)[r := b]]"

text \<open>
  The script reads and writes \<^verbatim>\<open>bricks[c][r]\<close> for \<open>c < columnCount\<close> and
  \<open>r < rowCount\<close> only, on the grid built at load time, whose shape never changes.
\<close>

definition grid_shape :: "brick list list \<Rightarrow> bool" where
  "grid_shape g \<longleftrightarrow> length g = columnCount \<and> list_all (\<lambda>col. length col = rowCount) g"

subsection \<open>Sound and drawing\<close>

definition playSound :: "nat \<Rightarrow> wave \<Rightarrow> real \<Rightarrow> game \<Rightarrow> game" where
  "playSound frequency w duration s = s\<lparr>sounds := sounds s @ [(frequency, w, duration)]\<rparr>"

definition draw :: "game \<Rightarrow> game" where
  "draw s =
     s\<lparr>screen := Some
        \<lparr>frame_ball = (ball_x s, ball_y s),
         frame_paddle = paddle_x s,
         frame_bricks =
           concat (map (\<lambda>c. concat (map (\<lambda>r.
             (let b = bricks s ! c ! r in
              if brick_status b = 1 then [(brick_x b, brick_y b, brick_color b)] else []))
             [0..<rowCount])) [0..<columnCount]),
         frame_score = score s,
         frame_lives = lives s\<rparr>\<rparr>"

subsection \<open>Resetting the ball and the level (lines 298-337)\<close>

text \<open>
  \<open>rnd n\<close> is the outcome of \<^verbatim>\<open>Math.random() > 0.5\<close> at the \<open>n\<close>-th call of
  \<^verbatim>\<open>Math.random\<close>.
\<close>

definition resetBall :: "(nat \<Rightarrow> bool) \<Rightarrow> game \<Rightarrow> game" where
  "resetBall rnd s =
     s\<lparr>ball_x := canvas_width / 2,
       ball_y := canvas_height - 30,
       ball_dx := 4 * (if rnd (rng s) then 1 else - 1),
       ball_dy := - 4,
       rng := rng s + 1\<rparr>"

definition resetLevel :: "(nat \<Rightarrow> bool) \<Rightarrow> game \<Rightarrow> game" where
  "resetLevel rnd s =
     (let s1 = resetBall rnd s in
      s1\<lparr>bricks :=
           fold (\<lambda>c. fold (\<lambda>r. setBrick c r (newBrick c r)) [0..<rowCount])
             [0..<columnCount] (bricks s1)\<rparr>)"

definition checkLevelComplete :: "game \<Rightarrow> bool" where
  "checkLevelComplete s =
     list_all (\<lambda>c. list_all (\<lambda>r. brick_status (bricks s ! c ! r) \<noteq> 1) [0..<rowCount])
       [0..<columnCount]"

subsection \<open>Collision with the bricks (lines 144-180)\<close>

text \<open>The test of lines 149-154: the ball's centre is strictly inside the brick.\<close>

definition overlaps :: "game \<Rightarrow> brick \<Rightarrow> bool" where
  "overlaps s b \<longleftrightarrow>
     ball_x s > brick_x b \<and> ball_x s < brick_x b + brick_width \<and>
     ball_y s > brick_y b \<and> ball_y s < brick_y b + brick_height"

text \<open>Lines 158-169: what a hit does to the brick, by its type.\<close>

definition applyBrickType :: "nat \<Rightarrow> nat \<Rightarrow> game \<Rightarrow> game" where
  "applyBrickType c r s =
     (let b = bricks s ! c ! r in
      if brick_type b = 1 then
        playSound 440 Square (1/10)
          (s\<lparr>bricks := setBrick c r (b\<lparr>brick_status := 0\<rparr>) (bricks s), score := score s + 10\<rparr>)
      else if brick_type b = 2 then
        playSound 220 Square (1/10)
          (s\<lparr>bricks := setBrick c r (b\<lparr>brick_type := 1\<rparr>) (bricks s)\<rparr>)
      else
        playSound 880 Triangle (1/10)
          (s\<lparr>bricks := setBrick c r (b\<lparr>brick_status := 0\<rparr>) (bricks s), score := score s + 30\<rparr>))"

text \<open>Lines 155-175: the body of the innermost \<^verbatim>\<open>if\<close>.\<close>

definition hitBrick :: "(nat \<Rightarrow> bool) \<Rightarrow> nat \<Rightarrow> nat \<Rightarrow> game \<Rightarrow> game" where
  "hitBrick rnd c r s =
     (let s1 = s\<lparr>ball_dy := - ball_dy s\<rparr>;
          s2 = applyBrickType c r s1
      in if checkLevelComplete s2 then resetLevel rnd (s2\<lparr>level := level s2 + 1\<rparr>) else s2)"

text \<open>Lines 147-177: the body of the inner loop.\<close>

definition brickCell :: "(nat \<Rightarrow> bool) \<Rightarrow> nat \<Rightarrow> nat \<Rightarrow> game \<Rightarrow> game" where
  "brickCell rnd c r s =
     (let b = bricks s ! c ! r in
      if brick_status b = 1 then
        if overlaps s b then hitBrick rnd c r s else s
      else s)"

definition collisionDetection :: "(nat \<Rightarrow> bool) \<Rightarrow> game \<Rightarrow> game" where
  "collisionDetection rnd s =
     fold (\<lambda>c. fold (\<lambda>r. brickCell rnd c r) [0..<rowCount]) [0..<columnCount] s"

subsection \<open>The paddle under the AI (lines 183-196)\<close>

definition aiControl :: "game \<Rightarrow> game" where
  "aiControl s =
     (if \<not> isAI s then s
      else
        let predictX =
              js_add (Fin (ball_x s))
                (js_mul (Fin (ball_dx s)) (js_div (Fin (paddle_y - ball_y s)) (Fin (ball_dy s))));
            px = js_sub predictX (Fin (paddle_width / 2))
        in if js_lt px (Fin 0) then s\<lparr>paddle_x := Fin 0\<rparr>
           else if js_gt (js_add px (Fin paddle_width)) (Fin canvas_width)
             then s\<lparr>paddle_x := Fin (canvas_width - paddle_width)\<rparr>
           else s\<lparr>paddle_x := px\<rparr>)"

subsection \<open>One tick (lines 241-295)\<close>

text \<open>Lines 245-246.\<close>

definition moveBall :: "game \<Rightarrow> game" where
  "moveBall s = s\<lparr>ball_x := ball_x s + ball_dx s, ball_y := ball_y s + ball_dy s\<rparr>"

text \<open>Lines 249-255: the left and the right wall.\<close>

definition wallCollision :: "game \<Rightarrow> game" where
  "wallCollision s =
     (if ball_x s + ball_dx s > canvas_width - ball_radius \<or> ball_x s + ball_dx s < ball_radius
      then playSound 330 Square (1/10) (s\<lparr>ball_dx := - ball_dx s\<rparr>)
      else s)"

text \<open>Lines 262-268: the ball comes down on the paddle, whose left edge is at \<open>px\<close>.\<close>

definition paddleHit :: "real \<Rightarrow> game \<Rightarrow> game" where
  "paddleHit px s =
     (let hitPosition = (ball_x s - (px + paddle_width / 2)) / (paddle_width / 2)
      in playSound 550 Square (1/10) (s\<lparr>ball_dx := hitPosition * 5, ball_dy := - \<bar>ball_dy s\<bar>\<rparr>))"

text \<open>
  Lines 270-280: the ball is lost. \<^verbatim>\<open>alert\<close> and \<^verbatim>\<open>document.location.reload()\<close> leave
  the state of this page as it is (the reload starts the script again, from \<open>init\<close>), and
  the rest of \<^verbatim>\<open>gameLoop\<close> still runs.
\<close>

definition loseLife :: "(nat \<Rightarrow> bool) \<Rightarrow> game \<Rightarrow> game" where
  "loseLife rnd s =
     (let s1 = playSound 110 Sine (3/10) (s\<lparr>lives := lives s - 1\<rparr>)
      in if lives s1 \<le> 0 then s1\<lparr>gameOver := True\<rparr> else resetBall rnd s1)"

text \<open>
  Lines 257-282: the top wall, else the bottom. The test of line 262 compares with
  \<^verbatim>\<open>paddle.x\<close>; both comparisons are false when it is \<open>NaN\<close>, and one of them is when it
  is infinite.
\<close>

definition floorCeiling :: "(nat \<Rightarrow> bool) \<Rightarrow> game \<Rightarrow> game" where
  "floorCeiling rnd s =
     (if ball_y s + ball_dy s < ball_radius then
        playSound 440 Square (1/10) (s\<lparr>ball_dy := - ball_dy s\<rparr>)
      else if ball_y s + ball_dy s > canvas_height - ball_radius then
        (case paddle_x s of
           Fin px \<Rightarrow>
             if ball_x s > px \<and> ball_x s < px + paddle_width then paddleHit px s
             else loseLife rnd s
         | _ \<Rightarrow> loseLife rnd s)
      else s)"

text \<open>
  \<^verbatim>\<open>requestAnimationFrame(gameLoop)\<close> asks the browser for the next call; the calls are the
  steps of \<open>reachable\<close> below.
\<close>

definition gameLoop :: "(nat \<Rightarrow> bool) \<Rightarrow> game \<Rightarrow> game" where
  "gameLoop rnd s =
     (if gameOver s \<or> paused s then s
      else
        let s1 = moveBall s;
            s2 = wallCollision s1;
            s3 = floorCeiling rnd s2;
            s4 = aiControl s3;
            s5 = collisionDetection rnd s4
        in draw s5)"

subsection \<open>The event handlers (lines 340-380)\<close>

text \<open>
  \<^verbatim>\<open>keydown\<close>, with \<open>k\<close> standing for \<^verbatim>\<open>e.key\<close>. The space bar in a finished game reloads
  the page, which leaves this page's state as it is.
\<close>

definition keydown :: "(nat \<Rightarrow> bool) \<Rightarrow> string \<Rightarrow> game \<Rightarrow> game" where
  "keydown rnd k s =
     (if k = ''Right'' \<or> k = ''ArrowRight'' then
        s\<lparr>paddle_x := js_min (js_add (paddle_x s) (Fin paddle_speed))
                          (Fin (canvas_width - paddle_width))\<rparr>
      else if k = ''Left'' \<or> k = ''ArrowLeft'' then
        s\<lparr>paddle_x := js_max (js_sub (paddle_x s) (Fin paddle_speed)) (Fin 0)\<rparr>
      else if k = '' '' then
        (if gameOver s then s
         else
           let s1 = s\<lparr>paused := \<not> paused s\<rparr>
           in if \<not> paused s1 then gameLoop rnd s1 else s1)
      else s)"

text \<open>\<^verbatim>\<open>mousemove\<close>, with \<open>relativeX = e.clientX - canvas.offsetLeft\<close>.\<close>

definition mousemove :: "real \<Rightarrow> game \<Rightarrow> game" where
  "mousemove relativeX s =
     (if \<not> isAI s then
        if relativeX > 0 \<and> relativeX < canvas_width then
          s\<lparr>paddle_x := Fin (max 0 (min (relativeX - paddle_width / 2)
                                        (canvas_width - paddle_width)))\<rparr>
        else s
      else s)"

definition toggleAI :: "game \<Rightarrow> game" where
  "toggleAI s = s\<lparr>isAI := \<not> isAI s\<rparr>"

subsection \<open>The states of a run\<close>

text \<open>The objects as the script creates them (lines 52-117).\<close>

definition init :: game where
  "init =
     \<lparr>score = 0, lives = 3, level = 1, isAI = True, gameOver = False, paused = False,
      ball_x = canvas_width / 2, ball_y = canvas_height - 30, ball_dx = 4, ball_dy = - 4,
      paddle_x = Fin ((canvas_width - 80) / 2),
      bricks = createBricks, rng = 0, sounds = [], screen = None\<rparr>"

text \<open>
  The script ends with \<^verbatim>\<open>resetLevel(); gameLoop();\<close> (lines 383-384). From there on the
  state changes by the calls of \<^verbatim>\<open>gameLoop\<close> and of the event handlers, in any order.
\<close>

inductive reachable :: "(nat \<Rightarrow> bool) \<Rightarrow> game \<Rightarrow> bool" for rnd :: "nat \<Rightarrow> bool" where
  r_start: "reachable rnd (resetLevel rnd init)"
| r_tick: "reachable rnd s \<Longrightarrow> reachable rnd (gameLoop rnd s)"
| r_key: "reachable rnd s \<Longrightarrow> reachable rnd (keydown rnd k s)"
| r_mouse: "reachable rnd s \<Longrightarrow> reachable rnd (mousemove relativeX s)"
| r_toggle: "reachable rnd s \<Longrightarrow> reachable rnd (toggleAI s)"

subsection \<open>Notions used in the statements\<close>

text \<open>
  The grid has its seven columns of three bricks, and every brick is where \<open>newBrick\<close>
  puts it. The script never assigns \<^verbatim>\<open>brick.x\<close> or \<^verbatim>\<open>brick.y\<close>.
\<close>

definition grid_std :: "brick list list \<Rightarrow> bool" where
  "grid_std g \<longleftrightarrow>
     grid_shape g \<and>
     list_all (\<lambda>c. list_all (\<lambda>r.
         brick_x (g ! c ! r) = real c * (brick_width + padding) + offsetLeft \<and>
         brick_y (g ! c ! r) = real r * (brick_height + padding) + offsetTop)
       [0..<rowCount]) [0..<columnCount]"

text \<open>The cells in the order in which the two loops of \<^verbatim>\<open>collisionDetection\<close> visit them.\<close>

definition scanOrder :: "(nat \<times> nat) list" where
  "scanOrder = List.product [0..<columnCount] [0..<rowCount]"

text \<open>The two tests of lines 148-154 on the cell \<open>(c, r)\<close>: the brick is there and the ball is in it.\<close>

definition hit_cell :: "game \<Rightarrow> nat \<Rightarrow> nat \<Rightarrow> bool" where
  "hit_cell s c r \<longleftrightarrow> brick_status (bricks s ! c ! r) = 1 \<and> overlaps s (bricks s ! c ! r)"

definition firstHit :: "game \<Rightarrow> (nat \<times> nat) option" where
  "firstHit s = find (\<lambda>p. hit_cell s (fst p) (snd p)) scanOrder"

text \<open>The brick of the cell \<open>(c, r)\<close> is the only one left.\<close>

definition onlyAlive :: "game \<Rightarrow> nat \<Rightarrow> nat \<Rightarrow> bool" where
  "onlyAlive s c r \<longleftrightarrow>
     list_all (\<lambda>p. (brick_status (bricks s ! fst p ! snd p) = 1) = (p = (c, r))) scanOrder"

definition paddle_ok :: "jsnum \<Rightarrow> bool" where
  "paddle_ok p = (case p of Fin x \<Rightarrow> 0 \<le> x \<and> x \<le> canvas_width - paddle_width | _ \<Rightarrow> False)"

text \<open>What holds of every state of a run.\<close>

definition invariant :: "game \<Rightarrow> bool" where
  "invariant s \<longleftrightarrow>
     grid_std (bricks s) \<and> (ball_dy s = 4 \<or> ball_dy s = - 4) \<and> paddle_ok (paddle_x s)"

text \<open>
  The number that \<^verbatim>\<open>aiControl\<close> computes for \<^verbatim>\<open>paddle.x\<close> when it divides by a number
  that is not zero: the projection of line 187, less half the paddle, clamped.
\<close>

definition aiTarget :: "game \<Rightarrow> real" where
  "aiTarget s =
     (let x = ball_x s + ball_dx s * ((paddle_y - ball_y s) / ball_dy s) - paddle_width / 2
      in if x < 0 then 0
         else if x + paddle_width > canvas_width then canvas_width - paddle_width
         else x)"

definition speed :: "game \<Rightarrow> real" where
  "speed s = sqrt ((ball_dx s)\<^sup>2 + (ball_dy s)\<^sup>2)"

text \<open>
  The order of the phases as the specification of the game gives it: the paddle first,
  from the AI; then the ball moves; then the collisions, with the transitions that they
  trigger; then the frame. The phases themselves are those of the script.
\<close>

definition specOrderTick :: "(nat \<Rightarrow> bool) \<Rightarrow> game \<Rightarrow> game" where
  "specOrderTick rnd s =
     (if gameOver s \<or> paused s then s
      else
        let s1 = aiControl s;
            s2 = moveBall s1;
            s3 = collisionDetection rnd (floorCeiling rnd (wallCollision s2))
        in draw s3)"

subsection \<open>Some states\<close>

text \<open>One life left, the ball on its way out on the left of the paddle.\<close>

definition lastBall :: game where
  "lastBall = init\<lparr>lives := 1, ball_x := 100, ball_y := 306, ball_dx := 4, ball_dy := 4\<rparr>"

text \<open>The ball in the top right corner, going up and right.\<close>

definition atTop :: game where
  "atTop = init\<lparr>ball_x := 470, ball_y := 10, ball_dx := 4, ball_dy := - 4\<rparr>"

text \<open>The ball below the paddle's plane, above the middle of the paddle.\<close>

definition centreHit :: game where
  "centreHit =
     init\<lparr>ball_x := 240, ball_y := 317, ball_dx := 4, ball_dy := - 4, paddle_x := Fin 200\<rparr>"

text \<open>Every brick gone but the normal one of column 2, with the ball in it.\<close>

definition oneBrickLeft :: game where
  "oneBrickLeft =
     init\<lparr>bricks :=
            setBrick 2 0 (newBrick 2 0)
              (map (map (\<lambda>b. b\<lparr>brick_status := 0\<rparr>)) createBricks),
          ball_x := 200, ball_y := 50, ball_dx := 4, ball_dy := - 4, score := 640\<rparr>"

text \<open>The AI is on, the paddle is at the left wall, the ball comes down on the right.\<close>

definition lateAI :: game where
  "lateAI = init\<lparr>paddle_x := Fin 0, ball_x := 300, ball_y := 305, ball_dx := 4, ball_dy := 4\<rparr>"




section \<open>Properties\<close>

subsection \<open>Fields that a function leaves alone\<close>

lemma playSound_fields [simp]:
  "score (playSound f w d s) = score s"
  "lives (playSound f w d s) = lives s"
  "level (playSound f w d s) = level s"
  "isAI (playSound f w d s) = isAI s"
  "gameOver (playSound f w d s) = gameOver s"
  "paused (playSound f w d s) = paused s"
  "ball_x (playSound f w d s) = ball_x s"
  "ball_y (playSound f w d s) = ball_y s"
  "ball_dx (playSound f w d s) = ball_dx s"
  "ball_dy (playSound f w d s) = ball_dy s"
  "paddle_x (playSound f w d s) = paddle_x s"
  "bricks (playSound f w d s) = bricks s"
  "rng (playSound f w d s) = rng s"
  "screen (playSound f w d s) = screen s"
  by (simp_all add: playSound_def)

lemma applyBrickType_ball [simp]:
  "ball_x (applyBrickType c r s) = ball_x s"
  "ball_y (applyBrickType c r s) = ball_y s"
  "ball_dx (applyBrickType c r s) = ball_dx s"
  "ball_dy (applyBrickType c r s) = ball_dy s"
  "paddle_x (applyBrickType c r s) = paddle_x s"
  "gameOver (applyBrickType c r s) = gameOver s"
  "paused (applyBrickType c r s) = paused s"
  "lives (applyBrickType c r s) = lives s"
  "level (applyBrickType c r s) = level s"
  "isAI (applyBrickType c r s) = isAI s"
  "rng (applyBrickType c r s) = rng s"
  by (simp_all add: applyBrickType_def Let_def)

lemma resetLevel_fields [simp]:
  "ball_x (resetLevel rnd s) = 240"
  "ball_y (resetLevel rnd s) = 290"
  "ball_dy (resetLevel rnd s) = - 4"
  "ball_dx (resetLevel rnd s) = 4 * (if rnd (rng s) then 1 else - 1)"
  "paddle_x (resetLevel rnd s) = paddle_x s"
  "gameOver (resetLevel rnd s) = gameOver s"
  "paused (resetLevel rnd s) = paused s"
  "lives (resetLevel rnd s) = lives s"
  "level (resetLevel rnd s) = level s"
  "score (resetLevel rnd s) = score s"
  "isAI (resetLevel rnd s) = isAI s"
  "sounds (resetLevel rnd s) = sounds s"
  "rng (resetLevel rnd s) = rng s + 1"
  by (simp_all add: resetLevel_def resetBall_def Let_def)

lemma hitBrick_fields [simp]:
  "paddle_x (hitBrick rnd c r s) = paddle_x s"
  "gameOver (hitBrick rnd c r s) = gameOver s"
  "paused (hitBrick rnd c r s) = paused s"
  "lives (hitBrick rnd c r s) = lives s"
  "isAI (hitBrick rnd c r s) = isAI s"
  by (simp_all add: hitBrick_def Let_def)

lemma aiControl_fields [simp]:
  "gameOver (aiControl s) = gameOver s"
  "paused (aiControl s) = paused s"
  "lives (aiControl s) = lives s"
  "ball_x (aiControl s) = ball_x s"
  "ball_y (aiControl s) = ball_y s"
  "ball_dx (aiControl s) = ball_dx s"
  "ball_dy (aiControl s) = ball_dy s"
  "bricks (aiControl s) = bricks s"
  "isAI (aiControl s) = isAI s"
  by (simp_all add: aiControl_def Let_def)

lemma draw_fields [simp]:
  "gameOver (draw s) = gameOver s"
  "paused (draw s) = paused s"
  "lives (draw s) = lives s"
  "paddle_x (draw s) = paddle_x s"
  "ball_dy (draw s) = ball_dy s"
  "isAI (draw s) = isAI s"
  by (simp_all add: draw_def)

subsection \<open>The grid\<close>

lemma grid_shape_iff:
  "grid_shape g \<longleftrightarrow> length g = 7 \<and> (\<forall>c<7. length (g ! c) = 3)"
  by (auto simp add: grid_shape_def list_all_length)

lemma grid_std_iff:
  "grid_std g \<longleftrightarrow> grid_shape g \<and>
     (\<forall>c<7. \<forall>r<3. brick_x (g ! c ! r) = real c * 70 + 30 \<and> brick_y (g ! c ! r) = real r * 30 + 40)"
  unfolding grid_std_def list_all_iff set_upt by auto

lemma fold_nth_update:
  "n \<le> length xs \<Longrightarrow> fold (\<lambda>i ys. ys[i := f i]) [0..<n] xs = map f [0..<n] @ drop n xs"
proof (induction n)
  case 0
  then show ?case by simp
next
  case (Suc n)
  then have "n < length xs" by simp
  then have d: "drop n xs = xs ! n # drop (Suc n) xs"
    by (simp add: Cons_nth_drop_Suc)
  from Suc show ?case
    by (simp add: d list_update_append)
qed

lemma fold_setBrick_column:
  "c < length g \<Longrightarrow>
   fold (\<lambda>r. setBrick c r (f r)) rs g = g[c := fold (\<lambda>r col. col[r := f r]) rs (g ! c)]"
  by (induction rs arbitrary: g) (simp_all add: setBrick_def)

lemma fill_column:
  assumes "c < length g" and "length (g ! c) = 3"
  shows "fold (\<lambda>r. setBrick c r (newBrick c r)) [0..<3] g = g[c := map (newBrick c) [0..<3]]"
proof -
  have "fold (\<lambda>r col. col[r := newBrick c r]) [0..<3] (g ! c) = map (newBrick c) [0..<3] @ drop 3 (g ! c)"
    using assms(2) by (intro fold_nth_update) simp
  with assms show ?thesis
    using fold_setBrick_column [OF assms(1), of "newBrick c" "[0..<3]"] by simp
qed

lemma fill_grid:
  "n \<le> length g \<Longrightarrow> \<forall>c<n. length (g ! c) = 3 \<Longrightarrow>
   fold (\<lambda>c. fold (\<lambda>r. setBrick c r (newBrick c r)) [0..<3]) [0..<n] g
     = map (\<lambda>c. map (newBrick c) [0..<3]) [0..<n] @ drop n g"
proof (induction n)
  case 0
  then show ?case by simp
next
  case (Suc n)
  let ?g = "map (\<lambda>c. map (newBrick c) [0..<3]) [0..<n] @ drop n g"
  from Suc.prems have n: "n < length g" by simp
  then have d: "drop n g = g ! n # drop (Suc n) g"
    by (simp add: Cons_nth_drop_Suc)
  have len: "n < length ?g" using n by simp
  have col: "length (?g ! n) = 3"
    using Suc.prems n by (simp add: nth_append)
  have "fold (\<lambda>c. fold (\<lambda>r. setBrick c r (newBrick c r)) [0..<3]) [0..<Suc n] g
          = fold (\<lambda>r. setBrick n r (newBrick n r)) [0..<3] ?g"
    using Suc by (simp del: upt_rec_numeral)
  also have "\<dots> = ?g[n := map (newBrick n) [0..<3]]"
    by (rule fill_column [OF len col])
  also have "\<dots> = map (\<lambda>c. map (newBrick c) [0..<3]) [0..<Suc n] @ drop (Suc n) g"
    by (simp add: d list_update_append del: upt_rec_numeral)
  finally show ?case .
qed

lemma resetLevel_bricks:
  assumes "grid_shape (bricks s)"
  shows "bricks (resetLevel rnd s) = createBricks"
proof -
  have "fold (\<lambda>c. fold (\<lambda>r. setBrick c r (newBrick c r)) [0..<3]) [0..<7] (bricks s)
          = map (\<lambda>c. map (newBrick c) [0..<3]) [0..<7] @ drop 7 (bricks s)"
    using assms by (intro fill_grid) (simp_all add: grid_shape_iff)
  then show ?thesis
    using assms by (simp add: resetLevel_def resetBall_def createBricks_def grid_shape_iff Let_def del: upt_rec_numeral)
qed

lemma grid_std_createBricks: "grid_std createBricks"
  by (simp add: grid_std_iff grid_shape_iff createBricks_def newBrick_def del: upt_rec_numeral)

lemma setBrick_nth:
  "setBrick c r b g ! c' ! r' =
     (if c' = c \<and> r' = r \<and> c < length g \<and> r < length (g ! c) then b else g ! c' ! r')"
proof (cases "c < length g")
  case True
  then show ?thesis
    by (cases "c' = c"; cases "r' = r"; cases "r < length (g ! c)")
       (simp_all add: setBrick_def list_update_beyond)
next
  case False
  then show ?thesis by (simp add: setBrick_def list_update_beyond)
qed

lemma setBrick_column_length: "length (setBrick c r b g ! c') = length (g ! c')"
  by (cases "c < length g"; cases "c' = c") (simp_all add: setBrick_def list_update_beyond)

lemma setBrick_shape: "grid_shape (setBrick c r b g) = grid_shape g"
  by (simp add: grid_shape_iff setBrick_column_length) (simp add: setBrick_def)

lemma setBrick_std:
  assumes "grid_std g" "brick_x b = brick_x (g ! c ! r)" "brick_y b = brick_y (g ! c ! r)"
  shows "grid_std (setBrick c r b g)"
  using assms by (simp add: grid_std_iff setBrick_shape setBrick_nth)

lemma applyBrickType_std:
  "grid_std (bricks s) \<Longrightarrow> grid_std (bricks (applyBrickType c r s))"
  by (simp add: applyBrickType_def Let_def setBrick_std)

lemma applyBrickType_other:
  assumes "grid_shape (bricks s)" "c < 7" "r < 3" "(c', r') \<noteq> (c, r)"
  shows "bricks (applyBrickType c r s) ! c' ! r' = bricks s ! c' ! r'"
  using assms by (auto simp add: applyBrickType_def Let_def setBrick_nth grid_shape_iff)

lemma hitBrick_std:
  assumes "grid_std (bricks s)"
  shows "grid_std (bricks (hitBrick rnd c r s))"
proof -
  let ?s2 = "applyBrickType c r (s\<lparr>ball_dy := - ball_dy s\<rparr>)"
  have std: "grid_std (bricks ?s2)" using assms by (intro applyBrickType_std) simp
  then have "grid_shape (bricks (?s2\<lparr>level := level ?s2 + 1\<rparr>))" by (simp add: grid_std_iff)
  then have "bricks (resetLevel rnd (?s2\<lparr>level := level ?s2 + 1\<rparr>)) = createBricks"
    by (rule resetLevel_bricks)
  with std show ?thesis
    by (simp add: hitBrick_def Let_def grid_std_createBricks)
qed


lemma createBricks_nth:
  "c < 7 \<Longrightarrow> r < 3 \<Longrightarrow> createBricks ! c ! r = newBrick c r"
  by (simp add: createBricks_def del: upt_rec_numeral)

lemma scanOrder_set: "p \<in> set scanOrder \<longleftrightarrow> fst p < 7 \<and> snd p < 3"
  unfolding scanOrder_def by (cases p) (auto simp del: upt_rec_numeral)

lemma checkLevelComplete_iff:
  "checkLevelComplete s \<longleftrightarrow> (\<forall>c<7. \<forall>r<3. brick_status (bricks s ! c ! r) \<noteq> 1)"
  unfolding checkLevelComplete_def list_all_iff set_upt by auto

lemma createBricks_all_alive:
  "list_all (\<lambda>p. brick_status (createBricks ! fst p ! snd p) = 1 \<and>
                 brick_type (createBricks ! fst p ! snd p) = types ! snd p) scanOrder"
  unfolding list_all_iff by (auto simp add: scanOrder_set createBricks_nth newBrick_def)

subsection \<open>The scan of the bricks\<close>

text \<open>
  The cells of the grid do not overlap, and a ball that has been reset is below all of
  them, so that after a hit no other cell of the scan is hit.
\<close>

lemma brickCell_hit_cell:
  "brickCell rnd c r s = (if hit_cell s c r then hitBrick rnd c r s else s)"
  by (simp add: brickCell_def hit_cell_def Let_def)

lemma std_cells_disjoint:
  assumes "grid_std (bricks s)" and "c < 7" "r < 3" "c' < 7" "r' < 3"
    and "overlaps s (bricks s ! c ! r)" and "overlaps s (bricks s ! c' ! r')"
  shows "c' = c \<and> r' = r"
proof -
  from assms have x: "real c * 70 + 30 < ball_x s" "ball_x s < real c * 70 + 90"
      "real c' * 70 + 30 < ball_x s" "ball_x s < real c' * 70 + 90"
    and y: "real r * 30 + 40 < ball_y s" "ball_y s < real r * 30 + 60"
      "real r' * 30 + 40 < ball_y s" "ball_y s < real r' * 30 + 60"
    by (simp_all add: grid_std_iff overlaps_def)
  have "c' = c"
  proof (rule ccontr)
    assume "c' \<noteq> c"
    then consider "c + 1 \<le> c'" | "c' + 1 \<le> c" by linarith
    then show False
    proof cases
      case 1
      then have "real c + 1 \<le> real c'" by linarith
      with x show False by linarith
    next
      case 2
      then have "real c' + 1 \<le> real c" by linarith
      with x show False by linarith
    qed
  qed
  moreover have "r' = r"
  proof (rule ccontr)
    assume "r' \<noteq> r"
    then consider "r + 1 \<le> r'" | "r' + 1 \<le> r" by linarith
    then show False
    proof cases
      case 1
      then have "real r + 1 \<le> real r'" by linarith
      with y show False by linarith
    next
      case 2
      then have "real r' + 1 \<le> real r" by linarith
      with y show False by linarith
    qed
  qed
  ultimately show ?thesis by simp
qed

lemma no_hit_after_reset:
  assumes "grid_std (bricks s)" "ball_y s = 290" "c < 7" "r < 3"
  shows "\<not> hit_cell s c r"
proof -
  from assms have "brick_y (bricks s ! c ! r) = real r * 30 + 40" by (simp add: grid_std_iff)
  moreover from \<open>r < 3\<close> have "real r \<le> 2" by simp
  ultimately show ?thesis using assms(2) by (simp add: hit_cell_def overlaps_def)
qed

lemma hitBrick_no_other_hit:
  assumes std: "grid_std (bricks s)" and c: "c < 7" "r < 3" and hit: "hit_cell s c r"
    and c': "c' < 7" "r' < 3" and ne: "(c', r') \<noteq> (c, r)"
  shows "\<not> hit_cell (hitBrick rnd c r s) c' r'"
proof -
  let ?s1 = "s\<lparr>ball_dy := - ball_dy s\<rparr>"
  let ?s2 = "applyBrickType c r ?s1"
  show ?thesis
  proof (cases "checkLevelComplete ?s2")
    case True
    then have eq: "hitBrick rnd c r s = resetLevel rnd (?s2\<lparr>level := level ?s2 + 1\<rparr>)"
      by (simp add: hitBrick_def Let_def)
    have "grid_std (bricks (hitBrick rnd c r s))" using std by (rule hitBrick_std)
    moreover have "ball_y (hitBrick rnd c r s) = 290" by (simp add: eq)
    ultimately show ?thesis using c' by (rule no_hit_after_reset)
  next
    case False
    then have eq: "hitBrick rnd c r s = ?s2" by (simp add: hitBrick_def Let_def)
    have same: "bricks ?s2 ! c' ! r' = bricks s ! c' ! r'"
      using std c ne applyBrickType_other [of ?s1 c r c' r'] by (simp add: grid_std_iff)
    have "\<not> overlaps s (bricks s ! c' ! r')"
      using std_cells_disjoint [OF std c c'] hit ne by (auto simp add: hit_cell_def)
    then show ?thesis
      by (simp add: eq hit_cell_def same overlaps_def)
  qed
qed

lemma fold_cells_no_hit:
  "\<forall>p\<in>set ps. \<not> hit_cell s (fst p) (snd p) \<Longrightarrow> fold (\<lambda>p. brickCell rnd (fst p) (snd p)) ps s = s"
  by (induction ps) (simp_all add: brickCell_hit_cell)

lemma fold_cells_first_hit:
  assumes "grid_std (bricks s)" "distinct ps" "\<forall>p\<in>set ps. fst p < 7 \<and> snd p < 3"
  shows "fold (\<lambda>p. brickCell rnd (fst p) (snd p)) ps s =
           (case find (\<lambda>p. hit_cell s (fst p) (snd p)) ps of
              None \<Rightarrow> s | Some p \<Rightarrow> hitBrick rnd (fst p) (snd p) s)"
  using assms
proof (induction ps)
  case Nil
  then show ?case by simp
next
  case (Cons p ps)
  show ?case
  proof (cases "hit_cell s (fst p) (snd p)")
    case True
    have "\<forall>q\<in>set ps. \<not> hit_cell (hitBrick rnd (fst p) (snd p) s) (fst q) (snd q)"
    proof
      fix q assume q: "q \<in> set ps"
      with Cons.prems have "q \<noteq> p" "fst q < 7" "snd q < 3" "fst p < 7" "snd p < 3" by auto
      then show "\<not> hit_cell (hitBrick rnd (fst p) (snd p) s) (fst q) (snd q)"
        using hitBrick_no_other_hit [OF Cons.prems(1) _ _ True, of "fst q" "snd q" rnd]
        by (auto simp add: prod_eq_iff)
    qed
    then have "fold (\<lambda>p. brickCell rnd (fst p) (snd p)) ps (hitBrick rnd (fst p) (snd p) s)
                 = hitBrick rnd (fst p) (snd p) s"
      by (rule fold_cells_no_hit)
    moreover have "brickCell rnd (fst p) (snd p) s = hitBrick rnd (fst p) (snd p) s"
      using True by (simp add: brickCell_hit_cell)
    ultimately show ?thesis using True by simp
  next
    case False
    then have "brickCell rnd (fst p) (snd p) s = s"
      by (simp add: brickCell_hit_cell)
    with False Cons show ?thesis by simp
  qed
qed

lemma fold_product:
  "fold (\<lambda>p. f (fst p) (snd p)) (List.product xs ys) s = fold (\<lambda>x. fold (f x) ys) xs s"
  by (induction xs arbitrary: s) (simp_all add: fold_map comp_def)

lemma collisionDetection_firstHit:
  assumes "grid_std (bricks s)"
  shows "collisionDetection rnd s =
           (case firstHit s of None \<Rightarrow> s | Some p \<Rightarrow> hitBrick rnd (fst p) (snd p) s)"
proof -
  have "collisionDetection rnd s = fold (\<lambda>p. brickCell rnd (fst p) (snd p)) scanOrder s"
    unfolding collisionDetection_def scanOrder_def by (rule fold_product [symmetric])
  moreover have "distinct scanOrder"
    unfolding scanOrder_def by (simp add: distinct_product del: upt_rec_numeral)
  moreover have "\<forall>p\<in>set scanOrder. fst p < 7 \<and> snd p < 3"
    unfolding scanOrder_def by (auto simp del: upt_rec_numeral)
  ultimately show ?thesis
    using fold_cells_first_hit [OF assms] by (simp add: firstHit_def)
qed

lemma find_unique:
  assumes "x \<in> set xs" "P x" "\<forall>y\<in>set xs. P y \<longrightarrow> y = x"
  shows "find P xs = Some x"
  using assms
proof (induction xs)
  case Nil
  then show ?case by simp
next
  case (Cons a xs)
  show ?case
  proof (cases "P a")
    case True
    with Cons.prems(3) have "a = x" by simp
    with True show ?thesis by simp
  next
    case False
    with Cons.prems(1,2) have "x \<in> set xs" by auto
    moreover from Cons.prems(3) have "\<forall>y\<in>set xs. P y \<longrightarrow> y = x" by simp
    ultimately have "find P xs = Some x" using Cons.prems(2) by (intro Cons.IH)
    with False show ?thesis by simp
  qed
qed



subsection \<open>What holds of every state of a run\<close>

lemma fold_preserves:
  assumes "\<And>x s. P s \<Longrightarrow> P (f x s)" and "P s"
  shows "P (fold f xs s)"
  using assms(2) by (induction xs arbitrary: s) (simp_all add: assms(1))

lemma hitBrick_dy:
  "ball_dy (hitBrick rnd c r s) = - ball_dy s \<or> ball_dy (hitBrick rnd c r s) = - 4"
  by (simp add: hitBrick_def Let_def)

lemma hitBrick_invariant: "invariant s \<Longrightarrow> invariant (hitBrick rnd c r s)"
  using hitBrick_dy [of rnd c r s] by (auto simp add: invariant_def hitBrick_std)

lemma brickCell_invariant: "invariant s \<Longrightarrow> invariant (brickCell rnd c r s)"
  by (simp add: brickCell_hit_cell hitBrick_invariant)

lemma collisionDetection_invariant: "invariant s \<Longrightarrow> invariant (collisionDetection rnd s)"
  unfolding collisionDetection_def
  by (intro fold_preserves [where P = invariant]) (simp_all add: brickCell_invariant)

lemma collisionDetection_flags:
  "gameOver (collisionDetection rnd s) = gameOver s \<and>
   paused (collisionDetection rnd s) = paused s \<and>
   paddle_x (collisionDetection rnd s) = paddle_x s \<and>
   lives (collisionDetection rnd s) = lives s \<and>
   isAI (collisionDetection rnd s) = isAI s"
proof -
  let ?P = "\<lambda>t. gameOver t = gameOver s \<and> paused t = paused s \<and> paddle_x t = paddle_x s
                \<and> lives t = lives s \<and> isAI t = isAI s"
  have "?P (collisionDetection rnd s)"
    unfolding collisionDetection_def
    by (intro fold_preserves [where P = ?P]) (simp_all add: brickCell_hit_cell)
  then show ?thesis .
qed

lemma aiControl_nonzero:
  assumes "isAI s" "ball_dy s \<noteq> 0"
  shows "aiControl s = s\<lparr>paddle_x := Fin (aiTarget s)\<rparr>"
  using assms by (simp add: aiControl_def aiTarget_def js_sub_def js_gt_def Let_def)

lemma aiTarget_range: "0 \<le> aiTarget s \<and> aiTarget s \<le> 400"
  by (simp add: aiTarget_def Let_def)

lemma aiControl_off: "\<not> isAI s \<Longrightarrow> aiControl s = s"
  by (simp add: aiControl_def)

lemma aiControl_invariant: "invariant s \<Longrightarrow> invariant (aiControl s)"
  using aiTarget_range [of s]
  by (cases "isAI s") (auto simp add: invariant_def aiControl_off aiControl_nonzero paddle_ok_def)

lemma moveBall_invariant: "invariant s \<Longrightarrow> invariant (moveBall s)"
  by (simp add: invariant_def moveBall_def)

lemma wallCollision_invariant: "invariant s \<Longrightarrow> invariant (wallCollision s)"
  by (simp add: invariant_def wallCollision_def)

lemma floorCeiling_invariant: "invariant s \<Longrightarrow> invariant (floorCeiling rnd s)"
  by (auto simp add: invariant_def floorCeiling_def paddleHit_def loseLife_def resetBall_def Let_def
      split: jsnum.splits)

lemma draw_invariant: "invariant s \<Longrightarrow> invariant (draw s)"
  by (simp add: invariant_def draw_def)

lemma gameLoop_invariant: "invariant s \<Longrightarrow> invariant (gameLoop rnd s)"
  by (simp add: gameLoop_def Let_def draw_invariant collisionDetection_invariant
      aiControl_invariant floorCeiling_invariant wallCollision_invariant moveBall_invariant)

lemma keydown_invariant: "invariant s \<Longrightarrow> invariant (keydown rnd k s)"
proof -
  assume inv: "invariant s"
  then obtain p where p: "paddle_x s = Fin p" "0 \<le> p" "p \<le> 400"
    by (auto simp add: invariant_def paddle_ok_def split: jsnum.splits)
  have "invariant (gameLoop rnd (s\<lparr>paused := \<not> paused s\<rparr>))"
    using inv by (intro gameLoop_invariant) (simp add: invariant_def)
  then show ?thesis
    using inv p
    by (auto simp add: keydown_def invariant_def paddle_ok_def js_min_def js_max_def js_sub_def Let_def)
qed

lemma mousemove_invariant: "invariant s \<Longrightarrow> invariant (mousemove relativeX s)"
  by (auto simp add: mousemove_def invariant_def paddle_ok_def)

lemma toggleAI_invariant: "invariant s \<Longrightarrow> invariant (toggleAI s)"
  by (simp add: toggleAI_def invariant_def)

lemma init_invariant: "invariant (resetLevel rnd init)"
proof -
  have "grid_shape (bricks init)"
    using grid_std_createBricks by (simp add: init_def grid_std_iff)
  then have "bricks (resetLevel rnd init) = createBricks" by (rule resetLevel_bricks)
  then show ?thesis
    by (simp add: invariant_def grid_std_createBricks paddle_ok_def) (simp add: init_def)
qed

lemma reachable_invariant: "reachable rnd s \<Longrightarrow> invariant s"
  by (induction rule: reachable.induct)
     (simp_all add: init_invariant gameLoop_invariant keydown_invariant mousemove_invariant
        toggleAI_invariant)

lemma start_flags [simp]:
  "\<not> gameOver (resetLevel rnd init)" "\<not> paused (resetLevel rnd init)"
  by (simp_all add: init_def)

lemma gameLoop_gameOver: "gameOver s \<Longrightarrow> gameLoop rnd s = s"
  by (simp add: gameLoop_def)

lemma gameLoop_iter_gameOver: "gameOver s \<Longrightarrow> (gameLoop rnd ^^ n) s = s"
  by (induction n) (simp_all add: gameLoop_gameOver)

lemma gameLoop_paddle:
  "\<not> gameOver s \<Longrightarrow> \<not> paused s \<Longrightarrow>
   paddle_x (gameLoop rnd s) = paddle_x (aiControl (floorCeiling rnd (wallCollision (moveBall s))))"
  by (simp add: gameLoop_def Let_def collisionDetection_flags)

lemma oneBrickLeft_facts:
  "grid_std (bricks oneBrickLeft)" "onlyAlive oneBrickLeft 2 0"
  "overlaps oneBrickLeft (bricks oneBrickLeft ! 2 ! 0)"
  "brick_type (bricks oneBrickLeft ! 2 ! 0) \<noteq> 2"
  by code_simp+

subsection \<open>A hit and its brick\<close>







subsection \<open>The first flight of the ball\<close>












subsection \<open>Facts about the states above\<close>




section \<open>The claims\<close>






text \<open>
  C3. When the ball is lost with one life left, the tick ends with no life left and
  \<^verbatim>\<open>gameOver\<close> set, and from then on every call of \<^verbatim>\<open>gameLoop\<close>, whatever the random
  numbers, leaves the whole state as it is: the ball, the paddle and the bricks with it.
  The ball is lost when, after its move, its next position is below the bottom line and
  it is not strictly between the two ends of the paddle.
\<close>

theorem gameOver_is_terminal:
  assumes "\<not> gameOver s" and "\<not> paused s" and "lives s = 1"
    and "ball_y s + ball_dy s + ball_dy s > canvas_height - ball_radius"
    and "\<not> (js_gt (Fin (ball_x s + ball_dx s)) (paddle_x s) \<and>
             js_lt (Fin (ball_x s + ball_dx s)) (js_add (paddle_x s) (Fin paddle_width)))"
  shows "lives (gameLoop rnd s) = 0 \<and> gameOver (gameLoop rnd s) \<and>
         (\<forall>rnd' n. (gameLoop rnd' ^^ n) (gameLoop rnd s) = gameLoop rnd s)"
proof -
  let ?s2 = "wallCollision (moveBall s)"
  have b: "ball_y ?s2 = ball_y s + ball_dy s" "ball_dy ?s2 = ball_dy s"
      "ball_x ?s2 = ball_x s + ball_dx s" "paddle_x ?s2 = paddle_x s" "lives ?s2 = lives s"
      "gameOver ?s2 = gameOver s"
    by (simp_all add: wallCollision_def moveBall_def)
  have "floorCeiling rnd ?s2 = loseLife rnd ?s2"
    using assms(4,5) b by (cases "paddle_x s") (auto simp add: floorCeiling_def js_gt_def)
  then have "gameOver (floorCeiling rnd ?s2) \<and> lives (floorCeiling rnd ?s2) = 0"
    using assms(3) b by (simp add: loseLife_def Let_def)
  then have "gameOver (gameLoop rnd s) \<and> lives (gameLoop rnd s) = 0"
    using assms(1,2) by (simp add: gameLoop_def Let_def collisionDetection_flags)
  then show ?thesis by (simp add: gameLoop_iter_gameOver)
qed

theorem gameOver_is_terminal_witness:
  "\<not> gameOver lastBall \<and> \<not> paused lastBall \<and> lives lastBall = 1 \<and>
   ball_y lastBall + ball_dy lastBall + ball_dy lastBall > canvas_height - ball_radius \<and>
   \<not> (js_gt (Fin (ball_x lastBall + ball_dx lastBall)) (paddle_x lastBall) \<and>
       js_lt (Fin (ball_x lastBall + ball_dx lastBall)) (js_add (paddle_x lastBall) (Fin paddle_width))) \<and>
   lives (gameLoop (\<lambda>_. True) lastBall) = 0 \<and> gameOver (gameLoop (\<lambda>_. True) lastBall) \<and>
   (\<forall>rnd' n. (gameLoop rnd' ^^ n) (gameLoop (\<lambda>_. True) lastBall) = gameLoop (\<lambda>_. True) lastBall)"
  using gameOver_is_terminal [of lastBall "\<lambda>_. True"]
  by (simp add: lastBall_def init_def js_gt_def)

text \<open>
  C4, as stated: a tick first applies the AI to the paddle, then moves the ball, then
  resolves the collisions. The script moves the ball and tests the walls and the paddle
  first, and calls \<^verbatim>\<open>aiControl\<close> after that. With the AI on, the paddle at the left wall
  and the ball coming down on the right, the script loses a life, where the order as
  stated would have brought the paddle under the ball first.
\<close>

theorem tick_order_differs:
  "\<not> gameOver lateAI \<and> \<not> paused lateAI \<and> lives lateAI = 3 \<and>
   lives (gameLoop (\<lambda>_. True) lateAI) = 2 \<and> lives (specOrderTick (\<lambda>_. True) lateAI) = 3"
proof -
  have f: "\<not> gameOver lateAI" "\<not> paused lateAI" "lives lateAI = 3"
    by (simp_all add: lateAI_def init_def)
  have c: "lives (floorCeiling (\<lambda>_. True) (wallCollision (moveBall lateAI))) = 2"
    by (simp add: lateAI_def init_def moveBall_def wallCollision_def floorCeiling_def loseLife_def
        resetBall_def Let_def)
  have ai: "aiControl lateAI = lateAI\<lparr>paddle_x := Fin 255\<rparr>"
    using aiControl_nonzero [of lateAI] by (simp add: aiTarget_def lateAI_def init_def)
  have sp: "lives (floorCeiling (\<lambda>_. True) (wallCollision (moveBall (lateAI\<lparr>paddle_x := Fin 255\<rparr>)))) = 3"
    by (simp add: lateAI_def init_def moveBall_def wallCollision_def floorCeiling_def paddleHit_def Let_def)
  have "lives (gameLoop (\<lambda>_. True) lateAI) = 2"
    using f c by (simp add: gameLoop_def Let_def collisionDetection_flags)
  moreover have "lives (specOrderTick (\<lambda>_. True) lateAI) = 3"
    using f sp by (simp add: specOrderTick_def Let_def collisionDetection_flags ai)
  ultimately show ?thesis using f by simp
qed

text \<open>
  C4, amended: a tick that is not suspended moves the ball, then reflects it on the side
  walls, then on the top wall or else, at the bottom, on the paddle (or loses a life, with
  the end of the game or the reset of the ball), then applies the AI to the paddle, then
  resolves the collision with the bricks (with the change of level), then draws the frame.
  The paddle that the bottom test sees is the one of the end of the tick before; and a
  tick with the AI off leaves the paddle where it is, since the keyboard and the mouse
  move it in their own handlers.
\<close>

theorem tick_order:
  assumes "\<not> gameOver s" and "\<not> paused s"
  shows "gameLoop rnd s =
           draw (collisionDetection rnd (aiControl (floorCeiling rnd (wallCollision (moveBall s))))) \<and>
         paddle_x (floorCeiling rnd (wallCollision (moveBall s))) = paddle_x s \<and>
         (\<not> isAI s \<longrightarrow> paddle_x (gameLoop rnd s) = paddle_x s)"
proof -
  let ?s3 = "floorCeiling rnd (wallCollision (moveBall s))"
  have p: "paddle_x ?s3 = paddle_x s" and a: "isAI ?s3 = isAI s"
    by (simp_all add: floorCeiling_def wallCollision_def moveBall_def paddleHit_def loseLife_def
        resetBall_def Let_def split: jsnum.splits)
  have "paddle_x (gameLoop rnd s) = paddle_x s" if "\<not> isAI s"
    using that assms a p by (simp add: gameLoop_paddle aiControl_off)
  with assms p show ?thesis by (simp add: gameLoop_def Let_def)
qed

theorem tick_order_witness:
  "\<not> gameOver lateAI \<and> \<not> paused lateAI \<and> \<not> isAI (toggleAI lateAI) \<and>
   gameLoop (\<lambda>_. True) lateAI =
     draw (collisionDetection (\<lambda>_. True) (aiControl (floorCeiling (\<lambda>_. True) (wallCollision (moveBall lateAI))))) \<and>
   paddle_x (gameLoop (\<lambda>_. True) (toggleAI lateAI)) = Fin 0"
proof -
  have f: "\<not> gameOver lateAI" "\<not> paused lateAI" "\<not> gameOver (toggleAI lateAI)"
    "\<not> paused (toggleAI lateAI)" "\<not> isAI (toggleAI lateAI)" "paddle_x (toggleAI lateAI) = Fin 0"
    by (simp_all add: lateAI_def init_def toggleAI_def)
  note t1 = tick_order [OF f(1,2), of "\<lambda>_. True"]
  note t2 = tick_order [OF f(3,4), of "\<lambda>_. True"]
  have "paddle_x (gameLoop (\<lambda>_. True) (toggleAI lateAI)) = Fin 0"
    using t2 [THEN conjunct2, THEN conjunct2] f(5,6) by simp
  with t1 [THEN conjunct1] f show ?thesis by blast
qed




text \<open>
  C6. In every state of a run, that is after any sequence of ticks, key presses, mouse
  moves and switches of the AI, \<^verbatim>\<open>paddle.x\<close> is a finite number between 0 and the canvas
  width less the paddle width; and it is so again after the next tick (where the AI may
  move the paddle), after any key and after any move of the mouse.
\<close>

theorem paddle_stays_in_field:
  assumes "reachable rnd s"
  shows "(\<exists>x. paddle_x s = Fin x \<and> 0 \<le> x \<and> x \<le> canvas_width - paddle_width) \<and>
         paddle_ok (paddle_x (gameLoop rnd s)) \<and>
         paddle_ok (paddle_x (keydown rnd k s)) \<and>
         paddle_ok (paddle_x (mousemove relativeX s))"
proof -
  have inv: "invariant s" using assms by (rule reachable_invariant)
  then have "\<exists>x. paddle_x s = Fin x \<and> 0 \<le> x \<and> x \<le> canvas_width - paddle_width"
    by (auto simp add: invariant_def paddle_ok_def split: jsnum.splits)
  moreover have "paddle_ok (paddle_x (gameLoop rnd s))"
    using gameLoop_invariant [OF inv] by (simp add: invariant_def)
  moreover have "paddle_ok (paddle_x (keydown rnd k s))"
    using keydown_invariant [OF inv] by (simp add: invariant_def)
  moreover have "paddle_ok (paddle_x (mousemove relativeX s))"
    using mousemove_invariant [OF inv] by (simp add: invariant_def)
  ultimately show ?thesis by blast
qed

theorem paddle_stays_in_field_witness:
  "reachable (\<lambda>_. True) (gameLoop (\<lambda>_. True) (resetLevel (\<lambda>_. True) init)) \<and>
   paddle_x (gameLoop (\<lambda>_. True) (resetLevel (\<lambda>_. True) init)) = Fin 190 \<and>
   paddle_ok (paddle_x (keydown (\<lambda>_. True) ''ArrowRight''
     (gameLoop (\<lambda>_. True) (resetLevel (\<lambda>_. True) init)))) \<and>
   paddle_ok (paddle_x (mousemove 470
     (gameLoop (\<lambda>_. True) (resetLevel (\<lambda>_. True) init))))"
proof -
  let ?start = "resetLevel (\<lambda>_. True) init"
  let ?next = "gameLoop (\<lambda>_. True) ?start"
  have r: "reachable (\<lambda>_. True) ?next" by (intro r_tick r_start)
  have s3: "floorCeiling (\<lambda>_. True) (wallCollision (moveBall ?start)) = moveBall ?start"
    by (simp add: floorCeiling_def wallCollision_def moveBall_def)
  have a: "isAI (moveBall ?start)" "ball_dy (moveBall ?start) \<noteq> 0"
    by (simp_all add: moveBall_def init_def)
  have t: "aiTarget (moveBall ?start) = 190"
    by (simp add: moveBall_def aiTarget_def init_def)
  have "paddle_x ?next = paddle_x (aiControl (moveBall ?start))"
    using gameLoop_paddle [OF start_flags, of "\<lambda>_. True" "\<lambda>_. True"] by (simp only: s3)
  also have "\<dots> = Fin 190"
    by (simp add: aiControl_nonzero [OF a] t)
  finally have p: "paddle_x ?next = Fin 190" .
  from paddle_stays_in_field [OF r, of "''ArrowRight''" 470] r p show ?thesis by simp
qed

text \<open>
  C7. When the ball is in the last brick and the brick is not a reinforced one,
  \<^verbatim>\<open>collisionDetection\<close> adds one to the level, leaves the grid as it is created at load
  time (every brick there, with the type of its row), puts the ball back at its start with
  a vertical velocity of -4 and a horizontal one of 4 or -4, and leaves \<^verbatim>\<open>gameOver\<close> and
  \<^verbatim>\<open>paused\<close> as they are.
\<close>

theorem level_clear:
  assumes "grid_std (bricks s)" and "c < columnCount" and "r < rowCount"
    and "onlyAlive s c r" and "overlaps s (bricks s ! c ! r)"
    and "brick_type (bricks s ! c ! r) \<noteq> 2"
  shows "level (collisionDetection rnd s) = level s + 1 \<and>
         bricks (collisionDetection rnd s) = createBricks \<and>
         list_all (\<lambda>p. brick_status (bricks (collisionDetection rnd s) ! fst p ! snd p) = 1 \<and>
                        brick_type (bricks (collisionDetection rnd s) ! fst p ! snd p) = types ! snd p)
           scanOrder \<and>
         ball_x (collisionDetection rnd s) = canvas_width / 2 \<and>
         ball_y (collisionDetection rnd s) = canvas_height - 30 \<and>
         (ball_dx (collisionDetection rnd s) = 4 \<or> ball_dx (collisionDetection rnd s) = - 4) \<and>
         ball_dy (collisionDetection rnd s) = - 4 \<and>
         gameOver (collisionDetection rnd s) = gameOver s \<and>
         paused (collisionDetection rnd s) = paused s"
proof -
  let ?s1 = "s\<lparr>ball_dy := - ball_dy s\<rparr>"
  let ?s2 = "applyBrickType c r ?s1"
  have alive: "(brick_status (bricks s ! c' ! r') = 1) = ((c', r') = (c, r))"
    if "c' < 7" "r' < 3" for c' r'
  proof -
    have "(c', r') \<in> set scanOrder" using that by (simp add: scanOrder_set)
    with assms(4) have "(brick_status (bricks s ! fst (c', r') ! snd (c', r')) = 1) = ((c', r') = (c, r))"
      unfolding onlyAlive_def list_all_iff by (rule bspec)
    then show ?thesis by simp
  qed
  from assms(1) have shape: "grid_shape (bricks s)" by (simp add: grid_std_iff)
  then have len: "c < length (bricks s)" "r < length (bricks s ! c)"
    using assms(2,3) by (simp_all add: grid_shape_iff)
  have hit: "hit_cell s c r"
    using alive [of c r] assms(2,3,5) by (simp add: hit_cell_def)
  have "find (\<lambda>p. hit_cell s (fst p) (snd p)) scanOrder = Some (c, r)"
  proof (rule find_unique)
    show "(c, r) \<in> set scanOrder" using assms(2,3) by (simp add: scanOrder_set)
    show "hit_cell s (fst (c, r)) (snd (c, r))" using hit by simp
    show "\<forall>y\<in>set scanOrder. hit_cell s (fst y) (snd y) \<longrightarrow> y = (c, r)"
      using alive by (auto simp add: scanOrder_set hit_cell_def)
  qed
  then have cd: "collisionDetection rnd s = hitBrick rnd c r s"
    using collisionDetection_firstHit [OF assms(1), of rnd] by (simp add: firstHit_def)
  have dead: "brick_status (bricks ?s2 ! c ! r) = 0"
    using assms(6) len by (simp add: applyBrickType_def Let_def setBrick_nth)
  have "checkLevelComplete ?s2"
    unfolding checkLevelComplete_iff
  proof (intro allI impI)
    fix c' r' :: nat assume c': "c' < 7" "r' < 3"
    show "brick_status (bricks ?s2 ! c' ! r') \<noteq> 1"
    proof (cases "(c', r') = (c, r)")
      case True
      with dead show ?thesis by simp
    next
      case False
      then have "bricks ?s2 ! c' ! r' = bricks s ! c' ! r'"
        using applyBrickType_other [of ?s1 c r c' r'] shape assms(2,3) by simp
      with alive [OF c'] False show ?thesis by simp
    qed
  qed
  then have hb: "hitBrick rnd c r s = resetLevel rnd (?s2\<lparr>level := level ?s2 + 1\<rparr>)"
    by (simp add: hitBrick_def Let_def)
  have "grid_shape (bricks (?s2\<lparr>level := level ?s2 + 1\<rparr>))"
    using applyBrickType_std [of ?s1 c r] assms(1) by (simp add: grid_std_iff)
  then have br: "bricks (collisionDetection rnd s) = createBricks"
    unfolding cd hb by (rule resetLevel_bricks)
  show ?thesis
  proof (intro conjI)
    show "level (collisionDetection rnd s) = level s + 1"
      and "ball_x (collisionDetection rnd s) = canvas_width / 2"
      and "ball_y (collisionDetection rnd s) = canvas_height - 30"
      and "ball_dx (collisionDetection rnd s) = 4 \<or> ball_dx (collisionDetection rnd s) = - 4"
      and "ball_dy (collisionDetection rnd s) = - 4"
      unfolding cd hb by simp_all
    show "gameOver (collisionDetection rnd s) = gameOver s"
      and "paused (collisionDetection rnd s) = paused s"
      by (simp_all add: collisionDetection_flags)
    show "bricks (collisionDetection rnd s) = createBricks" by (fact br)
    show "list_all (\<lambda>p. brick_status (bricks (collisionDetection rnd s) ! fst p ! snd p) = 1 \<and>
                        brick_type (bricks (collisionDetection rnd s) ! fst p ! snd p) = types ! snd p)
           scanOrder"
      unfolding br by (rule createBricks_all_alive)
  qed
qed

theorem level_clear_witness:
  "grid_std (bricks oneBrickLeft) \<and> (2::nat) < columnCount \<and> (0::nat) < rowCount \<and>
   onlyAlive oneBrickLeft 2 0 \<and> overlaps oneBrickLeft (bricks oneBrickLeft ! 2 ! 0) \<and>
   brick_type (bricks oneBrickLeft ! 2 ! 0) \<noteq> 2 \<and>
   level (collisionDetection (\<lambda>_. True) oneBrickLeft) = 2 \<and>
   bricks (collisionDetection (\<lambda>_. True) oneBrickLeft) = createBricks \<and>
   ball_x (collisionDetection (\<lambda>_. True) oneBrickLeft) = 240 \<and>
   ball_y (collisionDetection (\<lambda>_. True) oneBrickLeft) = 290 \<and>
   ball_dy (collisionDetection (\<lambda>_. True) oneBrickLeft) = - 4 \<and>
   \<not> gameOver (collisionDetection (\<lambda>_. True) oneBrickLeft) \<and>
   \<not> paused (collisionDetection (\<lambda>_. True) oneBrickLeft)"
proof -
  have "level oneBrickLeft = 1" "\<not> gameOver oneBrickLeft" "\<not> paused oneBrickLeft"
    by (simp_all add: oneBrickLeft_def init_def)
  then show ?thesis
    using level_clear [OF oneBrickLeft_facts(1) _ _ oneBrickLeft_facts(2,3,4), of "\<lambda>_. True"]
      oneBrickLeft_facts
    by simp
qed

text \<open>
  C8. When the ball comes down on the paddle, \<^verbatim>\<open>dy\<close> becomes \<open>- \<bar>dy\<bar>\<close> (upwards) and
  \<^verbatim>\<open>dx\<close> becomes 5 times the offset of the ball from the middle of the paddle, counted in
  half paddle widths, which is strictly between -1 and 1. A ball of velocity (4, -4) on the
  exact middle leaves with \<^verbatim>\<open>dx = 0\<close> and \<^verbatim>\<open>dy = -4\<close>.
\<close>

theorem paddle_bounce:
  assumes "paddle_x s = Fin px" and "px < ball_x s" and "ball_x s < px + paddle_width"
    and "ball_y s + ball_dy s > canvas_height - ball_radius"
  shows "ball_dy (floorCeiling rnd s) = - \<bar>ball_dy s\<bar> \<and>
         ball_dx (floorCeiling rnd s) = (ball_x s - (px + paddle_width / 2)) / (paddle_width / 2) * 5 \<and>
         \<bar>(ball_x s - (px + paddle_width / 2)) / (paddle_width / 2)\<bar> < 1 \<and>
         (ball_dx s = 4 \<and> ball_dy s = - 4 \<and> ball_x s = px + paddle_width / 2 \<longrightarrow>
            ball_dx (floorCeiling rnd s) = 0 \<and> ball_dy (floorCeiling rnd s) = - 4)"
  using assms by (auto simp add: floorCeiling_def paddleHit_def Let_def abs_if)

theorem paddle_bounce_witness:
  "paddle_x centreHit = Fin 200 \<and> 200 < ball_x centreHit \<and> ball_x centreHit < 200 + paddle_width \<and>
   ball_y centreHit + ball_dy centreHit > canvas_height - ball_radius \<and>
   ball_dx centreHit = 4 \<and> ball_dy centreHit = - 4 \<and> ball_x centreHit = 200 + paddle_width / 2 \<and>
   ball_dx (floorCeiling (\<lambda>_. True) centreHit) = 0 \<and> ball_dy (floorCeiling (\<lambda>_. True) centreHit) = - 4"
  using paddle_bounce [of centreHit 200 "\<lambda>_. True"]
  by (simp add: centreHit_def init_def)

text \<open>
  C9. The reflection on a side wall and the reflection on the top wall leave the speed
  \<open>sqrt (dx\<^sup>2 + dy\<^sup>2)\<close> of the ball as it is.
\<close>

theorem wall_reflection_keeps_speed:
  "speed (wallCollision s) = speed s \<and>
   (ball_y s + ball_dy s < ball_radius \<longrightarrow> speed (floorCeiling rnd s) = speed s)"
  by (simp add: speed_def wallCollision_def floorCeiling_def)

theorem wall_reflection_keeps_speed_witness:
  "ball_dx (wallCollision atTop) = - 4 \<and> speed (wallCollision atTop) = speed atTop \<and>
   ball_y atTop + ball_dy atTop < ball_radius \<and>
   ball_dy (floorCeiling (\<lambda>_. True) atTop) = 4 \<and>
   speed (floorCeiling (\<lambda>_. True) atTop) = speed atTop"
  using wall_reflection_keeps_speed [of atTop "\<lambda>_. True"]
  by (simp add: atTop_def init_def wallCollision_def floorCeiling_def)

text \<open>
  C10. In every state of a run \<^verbatim>\<open>ball.dy\<close> is 4 or -4, hence not zero; and so it is in
  the next tick at the call of \<^verbatim>\<open>aiControl\<close>, which divides by it.
\<close>

theorem vertical_speed_is_four:
  assumes "reachable rnd s"
  shows "(ball_dy s = 4 \<or> ball_dy s = - 4) \<and> ball_dy s \<noteq> 0 \<and>
         (ball_dy (floorCeiling rnd (wallCollision (moveBall s))) = 4 \<or>
          ball_dy (floorCeiling rnd (wallCollision (moveBall s))) = - 4)"
proof -
  have inv: "invariant s" using assms by (rule reachable_invariant)
  then have "invariant (floorCeiling rnd (wallCollision (moveBall s)))"
    by (intro floorCeiling_invariant wallCollision_invariant moveBall_invariant)
  with inv show ?thesis by (auto simp add: invariant_def)
qed

theorem vertical_speed_is_four_witness:
  "reachable (\<lambda>_. False) (gameLoop (\<lambda>_. False) (resetLevel (\<lambda>_. False) init)) \<and>
   ball_dy (gameLoop (\<lambda>_. False) (resetLevel (\<lambda>_. False) init)) \<noteq> 0"
  using vertical_speed_is_four [OF r_tick [OF r_start], of "\<lambda>_. False"]
  by (simp add: r_tick r_start)

end
